theory Spec2Isabelle
  imports Complex_Main "HOL-Library.AList"
begin

section \<open>The benchmark harness \<^verbatim>\<open>npbtool.py\<close>\<close>

text \<open>
  The harness has two entry points, \<^verbatim>\<open>do_time\<close> and \<^verbatim>\<open>do_profile\<close>. Both start
  the benchmark as a child process and one helper thread, wait for the child, join the
  thread and print a report. Everything the functions read from their environment is an
  explicit input of the model (a \<open>world\<close> record): the lines the child writes, the
  values \<^verbatim>\<open>time.time()\<close> returns, exit statuses, the state of the output directory.
  The helper thread is joined before its variables are read, so its effect on them is a
  function of the lines it consumes.

  Python floats are idealised as \<open>real\<close>: rounding, infinities and NaN are outside the
  model. The two library functions on floats whose result depends on the binary
  representation, \<^verbatim>\<open>float(str)\<close> and the format specification \<^verbatim>\<open>.2f\<close>, and the
  message text of \<^verbatim>\<open>CalledProcessError\<close> are parameters (record \<open>py_lib\<close>), so every
  theorem holds for whatever they compute. An exception that is not caught in a thread
  ends that thread only: Python reports it on standard error and the main thread goes on.
\<close>

subsection \<open>Constants\<close>

definition OMP_NUM_THREADS :: int where
  "OMP_NUM_THREADS = 64"

definition SPLIT_MARKER :: string where
  "SPLIT_MARKER = ''Initialization time''"

definition MOP_S_MARKER :: string where
  "MOP_S_MARKER = ''Mop/s total''"

definition UPROF_PCM_EXE :: string where
  "UPROF_PCM_EXE = ''/opt/AMDuProf_4.2-850/bin/AMDuProfPcm''"

subsection \<open>Python library functions\<close>

datatype py_error = IndexError | ValueError | TypeError | OSError | FileNotFoundError

record py_lib =
  py_float :: "string \<Rightarrow> real option"  \<comment> \<open>\<^verbatim>\<open>float(s)\<close>; \<open>None\<close> where it raises ValueError\<close>
  format_2f :: "real \<Rightarrow> string"  \<comment> \<open>\<^verbatim>\<open>format(x, '.2f')\<close>\<close>
  str_CalledProcessError :: "string list \<Rightarrow> int \<Rightarrow> string"
    \<comment> \<open>\<^verbatim>\<open>str(e)\<close> for the exception of a command and its exit status\<close>

text \<open>\<^verbatim>\<open>needle in hay\<close> on strings: some suffix of \<open>hay\<close> starts with \<open>needle\<close>.\<close>

fun starts_with :: "string \<Rightarrow> string \<Rightarrow> bool" where
  "starts_with s [] = True"
| "starts_with [] (p # ps) = False"
| "starts_with (c # cs) (p # ps) = (c = p \<and> starts_with cs ps)"

fun py_in :: "string \<Rightarrow> string \<Rightarrow> bool" where
  "py_in needle [] = (needle = [])"
| "py_in needle (c # cs) = (starts_with (c # cs) needle \<or> py_in needle cs)"

text \<open>
  \<^verbatim>\<open>str.split()\<close> without arguments: the maximal runs of non-whitespace characters.
  Characters are code points below 256; the whitespace ones are 9 to 13, 28 to 32,
  133 and 160.
\<close>

definition is_space :: "char \<Rightarrow> bool" where
  "is_space c = (let n = of_char c :: nat in
     (9 \<le> n \<and> n \<le> 13) \<or> (28 \<le> n \<and> n \<le> 32) \<or> n = 133 \<or> n = 160)"

fun split_aux :: "string \<Rightarrow> string \<Rightarrow> string list" where
  "split_aux cur [] = (if cur = [] then [] else [rev cur])"
| "split_aux cur (c # cs) =
     (if is_space c then (if cur = [] then split_aux [] cs else rev cur # split_aux [] cs)
      else split_aux (c # cur) cs)"

definition str_split :: "string \<Rightarrow> string list" where
  "str_split s = split_aux [] s"

text \<open>\<^verbatim>\<open>str(n)\<close> for an integer: decimal digits, a minus sign for negatives.\<close>

definition digit_char :: "nat \<Rightarrow> char" where
  "digit_char d = ''0123456789'' ! d"

fun str_nat :: "nat \<Rightarrow> string" where
  "str_nat n = (if n < 10 then [digit_char n] else str_nat (n div 10) @ [digit_char (n mod 10)])"

declare str_nat.simps [simp del]

definition str_int :: "int \<Rightarrow> string" where
  "str_int i = (if i < 0 then CHR ''-'' # str_nat (nat (- i)) else str_nat (nat i))"

text \<open>\<^verbatim>\<open>os.path.basename(p)\<close>: what follows the last slash.\<close>

definition basename :: "string \<Rightarrow> string" where
  "basename p = rev (takeWhile (\<lambda>c. c \<noteq> CHR ''/'') (rev p))"

text \<open>
  \<^verbatim>\<open>env = os.environ.copy(); env['OMP_NUM_THREADS'] = str(OMP_NUM_THREADS)\<close>:
  the environment is an association list, the assignment replaces the binding or adds one.
\<close>

definition make_env :: "(string \<times> string) list \<Rightarrow> (string \<times> string) list" where
  "make_env os_environ = AList.update ''OMP_NUM_THREADS'' (str_int OMP_NUM_THREADS) os_environ"

subsection \<open>The environment\<close>

text \<open>
  What one run of the harness reads from outside. \<open>child_output\<close> is the lines the
  benchmark writes, each with the value \<^verbatim>\<open>time.time()\<close> has while the scanning loop
  handles it; \<open>end_clock\<close> is read when \<^verbatim>\<open>process.wait()\<close> returns, which is before
  the scanning thread is joined. \<open>modprobe\<close> is how \<^verbatim>\<open>sudo modprobe msr\<close> ends and
  \<open>out_dir\<close> the state of the path \<^verbatim>\<open>out/\<close>. \<open>pipe_capacity\<close> is the number of
  characters the child can still write to its output pipe, without blocking, once
  nobody reads from it (what the pipe buffer holds, 65536 bytes by default on Linux,
  and what the reader has taken in advance). The shell that runs the benchmark command
  is taken to start, and to terminate unless it blocks on a write to that pipe.
\<close>

datatype run_outcome = Exit_status int | Not_started

datatype dir_state = Absent | Directory | Blocked

record world =
  os_environ :: "(string \<times> string) list"
  start_clock :: real
  child_output :: "(string \<times> real) list"
  exit_status :: int
  end_clock :: real
  modprobe :: run_outcome
  out_dir :: dir_state
  pipe_capacity :: nat

text \<open>A call of \<^verbatim>\<open>subprocess.Popen(command, shell=True, env=env, ...)\<close>;
  \<open>stdout_pipe\<close> says whether \<^verbatim>\<open>stdout=subprocess.PIPE\<close> is passed.\<close>

record popen_call =
  shell_command :: string
  child_env :: "(string \<times> string) list"
  stdout_pipe :: bool

subsection \<open>Timing mode: \<^verbatim>\<open>do_time\<close>\<close>

text \<open>
  What the harness writes to its standard output, kept structured: an echoed line of
  the child, the separator, and the four report lines with the value each one formats.
  \<open>render\<close> gives the text.
\<close>

datatype out_item =
    Echo string
  | Separator
  | Init_line real
  | Runtime_line real
  | Total_line real
  | Mops_line real

fun render :: "py_lib \<Rightarrow> out_item \<Rightarrow> string" where
  "render py (Echo l) = l"
| "render py Separator = replicate 40 (CHR ''-'') @ [CHR 0x0A]"
| "render py (Init_line d) =
     ''Initialization duration: '' @ format_2f py d @ '' seconds'' @ [CHR 0x0A]"
| "render py (Runtime_line d) =
     ''Runtime duration: '' @ format_2f py d @ '' seconds'' @ [CHR 0x0A]"
| "render py (Total_line d) =
     ''Total execution duration: '' @ format_2f py d @ '' seconds'' @ [CHR 0x0A]"
| "render py (Mops_line m) = ''Mop/s: '' @ format_2f py m @ [CHR 0x0A]"

text \<open>
  The variables shared between \<^verbatim>\<open>do_time\<close> and its nested function
  \<^verbatim>\<open>tail_output\<close> (the \<^verbatim>\<open>nonlocal\<close> ones), and the lines echoed so far.
\<close>

record scan_state =
  initialization_duration :: "real option"
  mop_s :: "real option"
  echoed :: "string list"

definition scan_init :: scan_state where
  "scan_init = \<lparr>initialization_duration = None, mop_s = None, echoed = []\<rparr>"

text \<open>
  \<^verbatim>\<open>float(line.split()[3])\<close>: IndexError with fewer than four tokens, ValueError when
  the fourth is not a float literal.
\<close>

definition parse_mop_s :: "py_lib \<Rightarrow> string \<Rightarrow> py_error + real" where
  "parse_mop_s py line =
     (let toks = str_split line in
      if length toks < 4 then Inl IndexError
      else case py_float py (toks ! 3) of None \<Rightarrow> Inl ValueError | Some v \<Rightarrow> Inr v)"

text \<open>
  The loop of \<^verbatim>\<open>tail_output\<close> over the lines and their clock readings. The result
  is the final state and the exception that ended the loop early, if one did: the state
  keeps what was assigned before the exception.
\<close>

fun tail_output :: "py_lib \<Rightarrow> real \<Rightarrow> (string \<times> real) list \<Rightarrow> scan_state
    \<Rightarrow> scan_state \<times> py_error option" where
  "tail_output py start_time [] st = (st, None)"
| "tail_output py start_time ((line, now) # rest) st =
     (let st1 = st\<lparr>echoed := echoed st @ [line]\<rparr>;
          st2 = (if py_in SPLIT_MARKER line \<and> initialization_duration st1 = None
                 then st1\<lparr>initialization_duration := Some (now - start_time)\<rparr> else st1)
      in if py_in MOP_S_MARKER line \<and> mop_s st2 = None
         then (case parse_mop_s py line of
                 Inl e \<Rightarrow> (st2, Some e)
               | Inr v \<Rightarrow> tail_output py start_time rest (st2\<lparr>mop_s := Some v\<rparr>))
         else tail_output py start_time rest st2)"

text \<open>
  \<^verbatim>\<open>x or 0.0\<close>: the right operand when \<open>x\<close> is \<^verbatim>\<open>None\<close> or zero, \<open>x\<close> otherwise.
\<close>

definition or_zero :: "real option \<Rightarrow> real" where
  "or_zero x = (case x of None \<Rightarrow> 0 | Some d \<Rightarrow> if d = 0 then 0 else d)"

text \<open>
  The result of \<^verbatim>\<open>do_time\<close> when \<^verbatim>\<open>process.wait()\<close> returns: the child it started,
  its standard output, the exception that ended the scanning thread (Python prints it on
  standard error and the main thread goes on), and the exception raised by
  \<^verbatim>\<open>do_time\<close> itself.
\<close>

record time_result =
  popen :: popen_call
  stdout :: "out_item list"
  thread_exception :: "py_error option"
  raised :: "py_error option"

definition do_time :: "py_lib \<Rightarrow> world \<Rightarrow> string \<Rightarrow> time_result" where
  "do_time py w command =
     (let env = make_env (os_environ w);
          process = \<lparr>shell_command = command, child_env = env, stdout_pipe = True\<rparr>;
          start_time = start_clock w;
          (st, exc) = tail_output py start_time (child_output w) scan_init;
          status = exit_status w;
          end_time = end_clock w;
          total_duration = end_time - start_time;
          initialization_duration = or_zero (initialization_duration st);
          runtime_duration = total_duration - initialization_duration;
          out = map Echo (echoed st) @
            [Separator, Init_line initialization_duration, Runtime_line runtime_duration,
             Total_line total_duration]
      in case mop_s st of
           None \<Rightarrow> \<lparr>popen = process, stdout = out, thread_exception = exc,
                     raised = Some TypeError\<rparr>
         | Some m \<Rightarrow> \<lparr>popen = process, stdout = out @ [Mops_line m],
                     thread_exception = exc, raised = None\<rparr>)"





subsection \<open>Profiling mode: \<^verbatim>\<open>do_profile\<close>\<close>

text \<open>
  Profiling mode is modelled by the calls it makes, in program order: \<open>main_trace\<close>
  for the main thread and \<open>profiler_trace\<close> for the thread that runs
  \<^verbatim>\<open>run_profiler_on\<close>, which lives between \<open>Thread_start\<close> and \<open>Thread_join\<close>.
\<close>

datatype event =
    Run "string list"
  | Print string
  | Makedirs string
  | Popen popen_call
  | Thread_start
  | Process_wait
  | Thread_join
  | Sleep real

datatype outcome = Returned | Sys_exit int | Uncaught py_error

fun exit_code :: "outcome \<Rightarrow> int" where
  "exit_code Returned = 0"
| "exit_code (Sys_exit n) = n"
| "exit_code (Uncaught e) = 1"

record profile_result =
  main_trace :: "event list"
  profiler_trace :: "event list"
  profiler_exception :: "py_error option"
  outcome :: outcome

definition modprobe_command :: "string list" where
  "modprobe_command = [''sudo'', ''modprobe'', ''msr'']"

text \<open>\<^verbatim>\<open>time.sleep\<close> raises ValueError on a negative argument; the thread ends there.\<close>

definition run_profiler_on :: "string \<Rightarrow> real \<Rightarrow> real \<Rightarrow> string \<Rightarrow> event list \<times> py_error option" where
  "run_profiler_on command init_duration run_duration csv_output_path =
     (if init_duration < 0 then ([], Some ValueError)
      else
        let run_duration_s = \<lfloor>run_duration\<rfloor>;
            profiler_command = [UPROF_PCM_EXE, ''-m'', ''memory'', ''-a'', ''-d'',
              str_int run_duration_s, ''-o'', csv_output_path]
        in ([Sleep init_duration, Run profiler_command], None))"

definition do_profile :: "py_lib \<Rightarrow> world \<Rightarrow> string \<Rightarrow> real \<Rightarrow> real \<Rightarrow> profile_result" where
  "do_profile py w command init_duration run_duration =
     (case modprobe w of
        Not_started \<Rightarrow>
          \<lparr>main_trace = [Run modprobe_command], profiler_trace = [],
           profiler_exception = None, outcome = Uncaught FileNotFoundError\<rparr>
      | Exit_status rc \<Rightarrow>
          if rc \<noteq> 0 then
            \<lparr>main_trace = [Run modprobe_command,
               Print (''Error inserting msr kernel module: '' @
                 str_CalledProcessError py modprobe_command rc @ [CHR 0x0A])],
             profiler_trace = [], profiler_exception = None, outcome = Sys_exit 1\<rparr>
          else
            let env = make_env (os_environ w) in
            if out_dir w = Blocked then
              \<lparr>main_trace = [Run modprobe_command, Makedirs ''out/''], profiler_trace = [],
               profiler_exception = None, outcome = Uncaught OSError\<rparr>
            else
              let benchmark_name = basename command;
                  csv_output_path = ''out/'' @ benchmark_name @ ''.csv'';
                  process = \<lparr>shell_command = command, child_env = env, stdout_pipe = False\<rparr>;
                  (thread_events, thread_exc) =
                    run_profiler_on command init_duration run_duration csv_output_path
              in \<lparr>main_trace = [Run modprobe_command, Makedirs ''out/'', Popen process,
                    Thread_start, Process_wait, Thread_join,
                    Print (replicate 40 (CHR ''-'') @ [CHR 0x0A]),
                    Print (''Profiling complete; output: '' @ csv_output_path @ [CHR 0x0A])],
                  profiler_trace = thread_events, profiler_exception = thread_exc,
                  outcome = Returned\<rparr>)"

subsection \<open>Reading the results\<close>

text \<open>The report part of the standard output: everything but the echoed lines.\<close>

definition reported :: "out_item list \<Rightarrow> out_item list" where
  "reported out = filter (\<lambda>x. case x of Echo l \<Rightarrow> False | _ \<Rightarrow> True) out"

text \<open>The scanning thread of a timing run, from its initial state.\<close>

definition scan :: "py_lib \<Rightarrow> real \<Rightarrow> (string \<times> real) list \<Rightarrow> scan_state \<times> py_error option" where
  "scan py start_time ls = tail_output py start_time ls scan_init"

text \<open>The processes a trace starts, the benchmark among them, and the lines it prints.\<close>

definition spawns :: "event list \<Rightarrow> event list" where
  "spawns tr = filter (\<lambda>e. case e of Run argv \<Rightarrow> True | Popen p \<Rightarrow> True | _ \<Rightarrow> False) tr"

definition popens :: "event list \<Rightarrow> popen_call list" where
  "popens tr = concat (map (\<lambda>e. case e of Popen p \<Rightarrow> [p] | _ \<Rightarrow> []) tr)"

definition printed :: "event list \<Rightarrow> string list" where
  "printed tr = concat (map (\<lambda>e. case e of Print s \<Rightarrow> [s] | _ \<Rightarrow> []) tr)"

text \<open>\<^verbatim>\<open>out/<benchmark_name>.csv\<close> as \<^verbatim>\<open>do_profile\<close> builds it.\<close>

definition csv_path :: "string \<Rightarrow> string" where
  "csv_path command = ''out/'' @ basename command @ ''.csv''"

text \<open>Reading a decimal numeral back, to check \<open>str_nat\<close> against.\<close>

definition digit_value :: "char \<Rightarrow> nat" where
  "digit_value c = of_char c - 48"

definition nat_of_digits :: "string \<Rightarrow> nat" where
  "nat_of_digits s = foldl (\<lambda>a c. 10 * a + digit_value c) 0 s"

subsection \<open>A library instance and sample runs\<close>

text \<open>
  An instance of \<open>py_lib\<close> for running the model on concrete inputs. \<open>decimal_float\<close>
  reads the literals \<^verbatim>\<open>ddd\<close> and \<^verbatim>\<open>ddd.ddd\<close> and rejects everything else (Python accepts
  more: signs, exponents, \<^verbatim>\<open>inf\<close>); \<open>fixed_2f\<close> writes two decimals, rounding halves
  away from zero (Python rounds the binary value of the float, which differs at
  exact ties only); \<open>called_process_error\<close> is the message for a positive exit status.
\<close>

definition is_digit :: "char \<Rightarrow> bool" where
  "is_digit c = (let n = of_char c :: nat in 48 \<le> n \<and> n \<le> 57)"

definition decimal_float :: "string \<Rightarrow> real option" where
  "decimal_float s =
     (let ip = takeWhile is_digit s; rest = dropWhile is_digit s in
      if ip = [] then None
      else if rest = [] then Some (real (nat_of_digits ip))
      else if hd rest = CHR ''.'' \<and> tl rest \<noteq> [] \<and> list_all is_digit (tl rest)
      then Some (real (nat_of_digits ip) + real (nat_of_digits (tl rest)) / 10 ^ length (tl rest))
      else None)"

definition fixed_2f :: "real \<Rightarrow> string" where
  "fixed_2f x =
     (let n = nat \<lfloor>\<bar>x\<bar> * 100 + 1 / 2\<rfloor>;
          body = str_nat (n div 100) @ ''.'' @ [digit_char (n div 10 mod 10), digit_char (n mod 10)]
      in if x < 0 then CHR ''-'' # body else body)"

definition called_process_error :: "string list \<Rightarrow> int \<Rightarrow> string" where
  "called_process_error argv rc =
     ''Command '' @ [CHR 0x27, CHR ''[''] @
     concat (map (\<lambda>(i, a). (if i = 0 then [] else '', '') @ [CHR 0x27] @ a @ [CHR 0x27])
               (zip [0 ..< length argv] argv)) @
     [CHR '']'', CHR 0x27] @ '' returned non-zero exit status '' @ str_int rc @ ''.''"

definition sample_lib :: py_lib where
  "sample_lib = \<lparr>py_float = decimal_float, format_2f = fixed_2f,
     str_CalledProcessError = called_process_error\<rparr>"

text \<open>A host on which the kernel module loads and \<^verbatim>\<open>out/\<close> does not exist yet.\<close>

definition host :: world where
  "host = \<lparr>os_environ = [(''HOME'', ''/root'')], start_clock = 100, child_output = [],
     exit_status = 0, end_clock = 100, modprobe = Exit_status 0, out_dir = Absent,
     pipe_capacity = 65536\<rparr>"

text \<open>
  A benchmark that prints both markers once and runs from clock 100 to 112.
\<close>

definition npb_lines :: "(string \<times> real) list" where
  "npb_lines =
     [('' NAS Parallel Benchmarks'' @ [CHR 0x0A], 100.5),
      ('' Initialization time =  2.5 seconds'' @ [CHR 0x0A], 102.5),
      ('' Mop/s total     =   12345.67'' @ [CHR 0x0A], 112)]"

definition npb_run :: world where
  "npb_run = host\<lparr>child_output := npb_lines, end_clock := 112\<rparr>"

text \<open>
  The command \<^verbatim>\<open>(sleep 5; echo Initialization time) &\<close>: the shell that the harness
  waits for exits at once, at clock 101, and the line arrives at clock 105 through the
  pipe that the background job still holds.
\<close>

definition late_marker_run :: world where
  "late_marker_run = host\<lparr>child_output := [(''Initialization time'' @ [CHR 0x0A], 105)],
     end_clock := 101\<rparr>"

text \<open>A benchmark whose throughput line has only three tokens, printed after the split marker.\<close>

definition short_mop_lines :: "(string \<times> real) list" where
  "short_mop_lines =
     [('' Initialization time =  2.5 seconds'' @ [CHR 0x0A], 102.5),
      ('' Mop/s total ='' @ [CHR 0x0A], 112),
      ('' Operation type = floating point'' @ [CHR 0x0A], 112)]"

definition short_mop_run :: world where
  "short_mop_run = host\<lparr>child_output := short_mop_lines, end_clock := 112\<rparr>"

text \<open>The same benchmark on a pipe that holds no more than 16 characters.\<close>

definition blocked_run :: world where
  "blocked_run = short_mop_run\<lparr>pipe_capacity := 16\<rparr>"

text \<open>A benchmark that prints each marker twice.\<close>

definition twice_lines :: "(string \<times> real) list" where
  "twice_lines =
     [('' Initialization time =  2.5 seconds'' @ [CHR 0x0A], 102.5),
      ('' Mop/s total     =   12345.67'' @ [CHR 0x0A], 110),
      ('' Initialization time =  9 seconds'' @ [CHR 0x0A], 111),
      ('' Mop/s total     =   1.5'' @ [CHR 0x0A], 112)]"

text \<open>A benchmark that prints neither marker.\<close>

definition quiet_run :: world where
  "quiet_run = host\<lparr>child_output := [(''hello'' @ [CHR 0x0A], 103)], exit_status := 3,
     end_clock := 104\<rparr>"

section \<open>Properties of the model\<close>

subsection \<open>The scanning loop\<close>

lemma reported_echo: "reported (map Echo ls @ xs) = reported xs"
  by (induction ls) (simp_all add: reported_def)

text \<open>A value, once assigned, is never assigned again.\<close>

lemma tail_output_init_kept:
  "initialization_duration st = Some d \<Longrightarrow>
   initialization_duration (fst (tail_output py s ls st)) = Some d"
  by (induction ls arbitrary: st) (auto simp: Let_def split: sum.splits)

text \<open>With the throughput assigned, nothing is parsed any more, so nothing raises.\<close>

lemma tail_output_mop_kept:
  "mop_s st = Some v \<Longrightarrow>
   mop_s (fst (tail_output py s ls st)) = Some v \<and> snd (tail_output py s ls st) = None"
  by (induction ls arbitrary: st) (auto simp: Let_def split: sum.splits)

lemma tail_output_echo_kept:
  "snd (tail_output py s ls st) = None \<Longrightarrow>
   echoed (fst (tail_output py s ls st)) = echoed st @ map fst ls"
  by (induction ls arbitrary: st) (auto simp: Let_def split: sum.splits if_splits)

text \<open>Scanning a stream in two parts: the second part is reached only without an exception.\<close>

lemma tail_output_append:
  "tail_output py s (xs @ ys) st =
     (case tail_output py s xs st of
        (st', None) \<Rightarrow> tail_output py s ys st'
      | (st', Some e) \<Rightarrow> (st', Some e))"
  by (induction xs arbitrary: st) (auto simp: Let_def split: sum.splits)

lemma tail_output_no_split:
  "\<forall>(l, t) \<in> set ls. \<not> py_in SPLIT_MARKER l \<Longrightarrow>
   initialization_duration (fst (tail_output py s ls st)) = initialization_duration st"
  by (induction ls arbitrary: st) (auto simp: Let_def split: sum.splits)

lemma tail_output_no_mop:
  "\<forall>(l, t) \<in> set ls. \<not> py_in MOP_S_MARKER l \<Longrightarrow>
   snd (tail_output py s ls st) = None \<and>
   mop_s (fst (tail_output py s ls st)) = mop_s st \<and>
   echoed (fst (tail_output py s ls st)) = echoed st @ map fst ls"
  by (induction ls arbitrary: st) (auto simp: Let_def split: sum.splits)

text \<open>
  When every clock reading taken at a split marker lies between \<open>s\<close> and \<open>e\<close>, the
  recorded duration lies between 0 and \<open>e - s\<close>.
\<close>

lemma tail_output_init_bound:
  assumes "\<forall>(l, t) \<in> set ls. py_in SPLIT_MARKER l \<longrightarrow> s \<le> t \<and> t \<le> e"
    and "\<forall>d. initialization_duration st = Some d \<longrightarrow> 0 \<le> d \<and> d \<le> e - s"
  shows "\<forall>d. initialization_duration (fst (tail_output py s ls st)) = Some d
           \<longrightarrow> 0 \<le> d \<and> d \<le> e - s"
  using assms
proof (induction ls arbitrary: st)
  case Nil
  then show ?case by simp
next
  case (Cons x ls)
  obtain l t where x: "x = (l, t)" by (cases x)
  let ?st1 = "st\<lparr>echoed := echoed st @ [l]\<rparr>"
  let ?st2 = "if py_in SPLIT_MARKER l \<and> initialization_duration ?st1 = None
              then ?st1\<lparr>initialization_duration := Some (t - s)\<rparr> else ?st1"
  have tl: "\<forall>(l, t) \<in> set ls. py_in SPLIT_MARKER l \<longrightarrow> s \<le> t \<and> t \<le> e"
    using Cons.prems(1) by simp
  have st2: "\<forall>d. initialization_duration ?st2 = Some d \<longrightarrow> 0 \<le> d \<and> d \<le> e - s"
    using Cons.prems x by auto
  have st3: "\<forall>d. initialization_duration (?st2\<lparr>mop_s := Some v\<rparr>) = Some d
               \<longrightarrow> 0 \<le> d \<and> d \<le> e - s" for v
    using st2 by simp
  show ?case
  proof (cases "py_in MOP_S_MARKER l \<and> mop_s ?st2 = None")
    case True
    show ?thesis
    proof (cases "parse_mop_s py l")
      case (Inl err)
      with True st2 x show ?thesis by (simp add: Let_def)
    next
      case (Inr v)
      have "tail_output py s (x # ls) st = tail_output py s ls (?st2\<lparr>mop_s := Some v\<rparr>)"
        using True Inr x by (simp add: Let_def)
      with Cons.IH [OF tl st3 [of v]] show ?thesis by simp
    qed
  next
    case False
    have "tail_output py s (x # ls) st = tail_output py s ls ?st2"
      using False x by (auto simp add: Let_def)
    with Cons.IH [OF tl st2] show ?thesis by simp
  qed
qed

lemma or_zero_bound:
  "\<forall>d. x = Some d \<longrightarrow> 0 \<le> d \<and> d \<le> b \<Longrightarrow> 0 \<le> b \<Longrightarrow> 0 \<le> or_zero x \<and> or_zero x \<le> b"
  by (cases x) (simp_all add: or_zero_def)

subsection \<open>\<^verbatim>\<open>do_time\<close> in terms of the scan\<close>

lemma do_time_stdout:
  "stdout (do_time py w c) =
     (let st = fst (scan py (start_clock w) (child_output w));
          i = or_zero (initialization_duration st);
          t = end_clock w - start_clock w
      in map Echo (echoed st) @ [Separator, Init_line i, Runtime_line (t - i), Total_line t] @
         (case mop_s st of None \<Rightarrow> [] | Some m \<Rightarrow> [Mops_line m]))"
  by (simp add: do_time_def scan_def Let_def split: prod.splits option.splits)

lemma do_time_raised:
  "raised (do_time py w c) =
     (case mop_s (fst (scan py (start_clock w) (child_output w))) of
        None \<Rightarrow> Some TypeError | Some m \<Rightarrow> None)"
  by (simp add: do_time_def scan_def Let_def split: prod.splits option.splits)

lemma do_time_thread_exception:
  "thread_exception (do_time py w c) = snd (scan py (start_clock w) (child_output w))"
  by (simp add: do_time_def scan_def Let_def split: prod.splits option.splits)

lemma do_time_report:
  "take 4 (reported (stdout (do_time py w c))) =
     (let i = or_zero (initialization_duration (fst (scan py (start_clock w) (child_output w))));
          t = end_clock w - start_clock w
      in [Separator, Init_line i, Runtime_line (t - i), Total_line t])"
  by (simp add: do_time_stdout Let_def reported_echo) (simp add: reported_def)

section \<open>The claims, timing mode\<close>

text \<open>Unfolding the model on the sample runs.\<close>

lemmas sample_eval = sample_lib_def host_def npb_run_def npb_lines_def late_marker_run_def
  short_mop_lines_def short_mop_run_def blocked_run_def twice_lines_def quiet_run_def
  do_time_def scan_def scan_init_def Let_def SPLIT_MARKER_def MOP_S_MARKER_def
  parse_mop_s_def str_split_def is_space_def or_zero_def reported_def make_env_def
  str_int_def str_nat.simps digit_char_def OMP_NUM_THREADS_def decimal_float_def is_digit_def
  nat_of_digits_def digit_value_def

subsection \<open>The durations\<close>

text \<open>
  Claim C1, as amended. The report of a timing run starts with the separator and the
  three durations, and the runtime duration is the total duration minus the
  initialization duration, whatever the run. The order
  \<open>0 \<le> initialization \<le> total\<close> holds when the clock reading at the end is not
  before the one at the start and every reading taken at a line with the split marker
  lies between the two. The code does not make it so: the end is read when the child
  exits, before the scanning thread has finished.
\<close>

theorem C1_durations:
  "\<exists>i t. take 4 (reported (stdout (do_time py w c))) =
           [Separator, Init_line i, Runtime_line (t - i), Total_line t] \<and>
         (start_clock w \<le> end_clock w \<and>
          (\<forall>(l, now) \<in> set (child_output w).
              py_in SPLIT_MARKER l \<longrightarrow> start_clock w \<le> now \<and> now \<le> end_clock w)
          \<longrightarrow> 0 \<le> i \<and> i \<le> t)"
proof -
  let ?st = "fst (scan py (start_clock w) (child_output w))"
  let ?i = "or_zero (initialization_duration ?st)"
  let ?t = "end_clock w - start_clock w"
  have rep: "take 4 (reported (stdout (do_time py w c))) =
      [Separator, Init_line ?i, Runtime_line (?t - ?i), Total_line ?t]"
    by (simp add: do_time_report Let_def)
  have bound: "0 \<le> ?i \<and> ?i \<le> ?t"
    if le: "start_clock w \<le> end_clock w"
      and clk: "\<forall>(l, now) \<in> set (child_output w).
        py_in SPLIT_MARKER l \<longrightarrow> start_clock w \<le> now \<and> now \<le> end_clock w"
  proof -
    have "\<forall>d. initialization_duration ?st = Some d \<longrightarrow> 0 \<le> d \<and> d \<le> ?t"
      unfolding scan_def
      by (rule tail_output_init_bound [OF clk]) (simp add: scan_init_def)
    then show ?thesis using le by (intro or_zero_bound) simp_all
  qed
  from rep bound show ?thesis by blast
qed

text \<open>The benchmark run that prints both markers: 2.5, 9.5 and 12 seconds.\<close>

theorem C1_durations_witness:
  "\<exists>i t. take 4 (reported (stdout (do_time sample_lib npb_run ''bt.C.x''))) =
           [Separator, Init_line i, Runtime_line (t - i), Total_line t] \<and> 0 \<le> i \<and> i \<le> t"
proof -
  have "start_clock npb_run \<le> end_clock npb_run \<and>
      (\<forall>(l, now) \<in> set (child_output npb_run).
          py_in SPLIT_MARKER l \<longrightarrow> start_clock npb_run \<le> now \<and> now \<le> end_clock npb_run)"
    by (simp add: npb_run_def host_def npb_lines_def)
  with C1_durations [of sample_lib npb_run "''bt.C.x''"] show ?thesis by blast
qed

text \<open>
  Claim C1 as stated fails: when the marker line is read four seconds after the shell
  that was waited for has exited, the initialization duration is 5, the total 1 and the
  runtime -4.
\<close>

theorem C1_counterexample:
  "take 4 (reported (stdout (do_time sample_lib late_marker_run ''bench''))) =
     [Separator, Init_line 5, Runtime_line (- 4), Total_line 1] \<and> \<not> (5 \<le> (1::real))"
  by (simp add: sample_eval)

subsection \<open>Missing markers and the exit status\<close>

text \<open>
  Claim C3. When no line of the child's output contains the split marker, the reported
  initialization duration is 0 and the reported runtime duration is the reported total
  duration.
\<close>

theorem C3_no_split_marker:
  assumes "\<forall>(l, now) \<in> set (child_output w). \<not> py_in SPLIT_MARKER l"
  shows "take 4 (reported (stdout (do_time py w c))) =
     [Separator, Init_line 0, Runtime_line (end_clock w - start_clock w),
      Total_line (end_clock w - start_clock w)]"
proof -
  have "initialization_duration (fst (scan py (start_clock w) (child_output w))) = None"
    unfolding scan_def using tail_output_no_split [OF assms] by (simp add: scan_init_def)
  then show ?thesis by (simp add: do_time_report Let_def or_zero_def)
qed

text \<open>A run without markers, from clock 100 to 104.\<close>

theorem C3_no_split_marker_witness:
  "take 4 (reported (stdout (do_time sample_lib quiet_run ''bench''))) =
     [Separator, Init_line 0, Runtime_line 4, Total_line 4]"
proof -
  have h: "\<forall>(l, now) \<in> set (child_output quiet_run). \<not> py_in SPLIT_MARKER l"
    by (simp add: quiet_run_def host_def SPLIT_MARKER_def)
  from C3_no_split_marker [OF h, of sample_lib "''bench''"] show ?thesis
    by (simp add: quiet_run_def host_def)
qed

text \<open>
  Claim C7. When no line of the child's output contains the throughput marker, the
  scanning thread ends normally, the harness prints every line of the child, the
  separator and the three duration lines, and then fails with TypeError where it formats
  the throughput, which is still \<^verbatim>\<open>None\<close>: no throughput line is printed.
\<close>

theorem C7_missing_throughput:
  assumes "\<forall>(l, now) \<in> set (child_output w). \<not> py_in MOP_S_MARKER l"
  shows "raised (do_time py w c) = Some TypeError \<and>
     thread_exception (do_time py w c) = None \<and>
     (\<exists>i t. stdout (do_time py w c) =
        map Echo (map fst (child_output w)) @
        [Separator, Init_line i, Runtime_line (t - i), Total_line t])"
proof -
  let ?sc = "scan py (start_clock w) (child_output w)"
  have sc: "snd ?sc = None \<and> mop_s (fst ?sc) = None \<and>
      echoed (fst ?sc) = map fst (child_output w)"
    unfolding scan_def using tail_output_no_mop [OF assms] by (simp add: scan_init_def)
  then show ?thesis
    by (simp add: do_time_raised do_time_thread_exception do_time_stdout Let_def)
qed

text \<open>
  The run without markers, as text.
\<close>

theorem C7_missing_throughput_witness:
  "raised (do_time sample_lib quiet_run ''bench'') = Some TypeError \<and>
   map (render sample_lib) (stdout (do_time sample_lib quiet_run ''bench'')) =
     [''hello'' @ [CHR 0x0A],
      replicate 40 (CHR ''-'') @ [CHR 0x0A],
      ''Initialization duration: 0.00 seconds'' @ [CHR 0x0A],
      ''Runtime duration: 4.00 seconds'' @ [CHR 0x0A],
      ''Total execution duration: 4.00 seconds'' @ [CHR 0x0A]]"
proof -
  have h: "\<forall>(l, now) \<in> set (child_output quiet_run). \<not> py_in MOP_S_MARKER l"
    by (simp add: quiet_run_def host_def MOP_S_MARKER_def)
  have "map (render sample_lib) (stdout (do_time sample_lib quiet_run ''bench'')) =
     [''hello'' @ [CHR 0x0A],
      replicate 40 (CHR ''-'') @ [CHR 0x0A],
      ''Initialization duration: 0.00 seconds'' @ [CHR 0x0A],
      ''Runtime duration: 4.00 seconds'' @ [CHR 0x0A],
      ''Total execution duration: 4.00 seconds'' @ [CHR 0x0A]]"
    by (simp add: sample_eval fixed_2f_def)
  with C7_missing_throughput [OF h, of sample_lib "''bench''"] show ?thesis by simp
qed

text \<open>
  Claim C8. The result of a timing run is the same for every exit status of the child
  as for status 0; the separator and the three durations are reported in every run, and
  the run ends without an exception exactly when a throughput value was recorded.
\<close>

theorem C8_exit_status_ignored:
  "do_time py (w\<lparr>exit_status := n\<rparr>) c = do_time py (w\<lparr>exit_status := 0\<rparr>) c \<and>
   (\<exists>i t. take 4 (reported (stdout (do_time py (w\<lparr>exit_status := n\<rparr>) c))) =
      [Separator, Init_line i, Runtime_line (t - i), Total_line t]) \<and>
   (raised (do_time py (w\<lparr>exit_status := n\<rparr>) c) = None) =
     (mop_s (fst (scan py (start_clock w) (child_output w))) \<noteq> None)"
proof -
  have "do_time py (w\<lparr>exit_status := n\<rparr>) c = do_time py (w\<lparr>exit_status := 0\<rparr>) c"
    by (simp add: do_time_def)
  moreover have "\<exists>i t. take 4 (reported (stdout (do_time py (w\<lparr>exit_status := n\<rparr>) c))) =
      [Separator, Init_line i, Runtime_line (t - i), Total_line t]"
    by (simp add: do_time_report Let_def)
  moreover have "(raised (do_time py (w\<lparr>exit_status := n\<rparr>) c) = None) =
     (mop_s (fst (scan py (start_clock w) (child_output w))) \<noteq> None)"
    by (simp add: do_time_raised split: option.splits)
  ultimately show ?thesis by blast
qed

text \<open>
  The benchmark run with exit status 3.
\<close>

theorem C8_exit_status_ignored_witness:
  "do_time sample_lib (npb_run\<lparr>exit_status := 3\<rparr>) ''bt.C.x'' =
     do_time sample_lib (npb_run\<lparr>exit_status := 0\<rparr>) ''bt.C.x'' \<and>
   raised (do_time sample_lib (npb_run\<lparr>exit_status := 3\<rparr>) ''bt.C.x'') = None"
proof -
  have "mop_s (fst (scan sample_lib (start_clock npb_run) (child_output npb_run))) \<noteq> None"
    by (simp add: sample_eval)
  with C8_exit_status_ignored [where py = sample_lib and w = npb_run and n = 3 and c = "''bt.C.x''"] show ?thesis by blast
qed

subsection \<open>The first occurrence of a marker\<close>



text \<open>
  The first line with the throughput marker decides: a parse error ends the scan there,
  with no throughput recorded; a parsed value is recorded and the rest of the stream is
  echoed without another parse.
\<close>

lemma scan_first_mop:
  assumes pre: "\<forall>(l', t') \<in> set pre. \<not> py_in MOP_S_MARKER l'"
    and l: "py_in MOP_S_MARKER l"
  shows "case parse_mop_s py l of
      Inl e \<Rightarrow>
        snd (scan py s (pre @ (l, now) # post)) = Some e \<and>
        mop_s (fst (scan py s (pre @ (l, now) # post))) = None \<and>
        echoed (fst (scan py s (pre @ (l, now) # post))) = map fst pre @ [l]
    | Inr v \<Rightarrow>
        snd (scan py s (pre @ (l, now) # post)) = None \<and>
        mop_s (fst (scan py s (pre @ (l, now) # post))) = Some v \<and>
        echoed (fst (scan py s (pre @ (l, now) # post))) = map fst (pre @ (l, now) # post)"
proof -
  obtain st0 where st0: "tail_output py s pre scan_init = (st0, None)"
    and mop0: "mop_s st0 = None" and echo0: "echoed st0 = map fst pre"
    using tail_output_no_mop [OF pre, of py s scan_init]
    by (cases "tail_output py s pre scan_init") (simp add: scan_init_def)
  let ?st1 = "st0\<lparr>echoed := echoed st0 @ [l]\<rparr>"
  let ?st2 = "if py_in SPLIT_MARKER l \<and> initialization_duration ?st1 = None
              then ?st1\<lparr>initialization_duration := Some (now - s)\<rparr> else ?st1"
  have split: "scan py s (pre @ (l, now) # post) = tail_output py s ((l, now) # post) st0"
    by (simp add: scan_def tail_output_append st0)
  have mop2: "mop_s ?st2 = None" and echo2: "echoed ?st2 = map fst pre @ [l]"
    using mop0 echo0 by simp_all
  show ?thesis
  proof (cases "parse_mop_s py l")
    case (Inl e)
    have "tail_output py s ((l, now) # post) st0 = (?st2, Some e)"
      using l mop0 Inl by (simp add: Let_def)
    with Inl split mop2 echo2 show ?thesis by simp
  next
    case (Inr v)
    let ?st3 = "?st2\<lparr>mop_s := Some v\<rparr>"
    have step: "tail_output py s ((l, now) # post) st0 = tail_output py s post ?st3"
      using l mop0 Inr by (simp add: Let_def)
    have kept: "mop_s (fst (tail_output py s post ?st3)) = Some v \<and>
        snd (tail_output py s post ?st3) = None"
      by (rule tail_output_mop_kept) simp
    then have "echoed (fst (tail_output py s post ?st3)) = echoed ?st3 @ map fst post"
      by (intro tail_output_echo_kept) simp
    then have "echoed (fst (tail_output py s post ?st3)) = map fst (pre @ (l, now) # post)"
      using echo0 by simp
    with Inr split step kept show ?thesis by simp
  qed
qed

text \<open>
  The first line with the split marker decides the recorded initialization duration,
  if the scan gets that far.
\<close>

lemma scan_first_split:
  assumes pre: "\<forall>(l', t') \<in> set pre. \<not> py_in SPLIT_MARKER l'"
    and l: "py_in SPLIT_MARKER l"
  shows "initialization_duration (fst (scan py s (pre @ (l, now) # post))) =
     (if snd (scan py s pre) = None then Some (now - s) else None)"
proof -
  obtain st0 e0 where st0: "tail_output py s pre scan_init = (st0, e0)"
    by (cases "tail_output py s pre scan_init")
  have init0: "initialization_duration st0 = None"
    using tail_output_no_split [OF pre, of py s scan_init] st0 by (simp add: scan_init_def)
  show ?thesis
  proof (cases e0)
    case None
    let ?st1 = "st0\<lparr>echoed := echoed st0 @ [l]\<rparr>"
    let ?st2 = "?st1\<lparr>initialization_duration := Some (now - s)\<rparr>"
    have split: "scan py s (pre @ (l, now) # post) = tail_output py s ((l, now) # post) st0"
      using None by (simp add: scan_def tail_output_append st0)
    have "initialization_duration (fst (tail_output py s ((l, now) # post) st0)) = Some (now - s)"
    proof (cases "py_in MOP_S_MARKER l \<and> mop_s ?st2 = None")
      case True
      show ?thesis
      proof (cases "parse_mop_s py l")
        case (Inl e)
        with True l init0 show ?thesis by (simp add: Let_def)
      next
        case (Inr v)
        have "tail_output py s ((l, now) # post) st0 =
            tail_output py s post (?st2\<lparr>mop_s := Some v\<rparr>)"
          using True l init0 Inr by (simp add: Let_def)
        then show ?thesis by (simp add: tail_output_init_kept)
      qed
    next
      case False
      have "tail_output py s ((l, now) # post) st0 = tail_output py s post ?st2"
        using False l init0 by (auto simp add: Let_def)
      then show ?thesis by (simp add: tail_output_init_kept)
    qed
    with split None st0 show ?thesis by (simp add: scan_def)
  next
    case (Some e)
    then have "scan py s (pre @ (l, now) # post) = (st0, Some e)"
      by (simp add: scan_def tail_output_append st0)
    with Some st0 init0 show ?thesis by (simp add: scan_def)
  qed
qed






text \<open>
  Claim C4. In a stream \<open>pre @ (l, now) # post\<close> where \<open>l\<close> is the first line with
  the split marker, the recorded initialization duration is \<open>now - s\<close> if the scan
  reaches the line, and nothing otherwise; where \<open>l\<close> is the first line with the
  throughput marker, the recorded throughput is the value parsed from \<open>l\<close>, and nothing
  if the parse fails. Neither depends on \<open>post\<close>: later occurrences are ignored.
\<close>

theorem C4_first_match_wins:
  "((\<forall>(l', t') \<in> set pre. \<not> py_in SPLIT_MARKER l') \<and> py_in SPLIT_MARKER l \<longrightarrow>
      initialization_duration (fst (scan py s (pre @ (l, now) # post))) =
        (if snd (scan py s pre) = None then Some (now - s) else None)) \<and>
   ((\<forall>(l', t') \<in> set pre. \<not> py_in MOP_S_MARKER l') \<and> py_in MOP_S_MARKER l \<longrightarrow>
      mop_s (fst (scan py s (pre @ (l, now) # post))) =
        (case parse_mop_s py l of Inl e \<Rightarrow> None | Inr v \<Rightarrow> Some v))"
proof (intro conjI impI)
  assume "(\<forall>(l', t') \<in> set pre. \<not> py_in SPLIT_MARKER l') \<and> py_in SPLIT_MARKER l"
  then show "initialization_duration (fst (scan py s (pre @ (l, now) # post))) =
        (if snd (scan py s pre) = None then Some (now - s) else None)"
    by (intro scan_first_split) simp_all
next
  assume a: "(\<forall>(l', t') \<in> set pre. \<not> py_in MOP_S_MARKER l') \<and> py_in MOP_S_MARKER l"
  from a have pre: "\<forall>(l', t') \<in> set pre. \<not> py_in MOP_S_MARKER l'"
    and l: "py_in MOP_S_MARKER l" by simp_all
  from scan_first_mop [OF pre l, of py s now post]
  show "mop_s (fst (scan py s (pre @ (l, now) # post))) =
        (case parse_mop_s py l of Inl e \<Rightarrow> None | Inr v \<Rightarrow> Some v)"
    by (cases "parse_mop_s py l") simp_all
qed

text \<open>
  A stream with each marker on two lines: the first occurrences give 2.5 and 12345.67.
\<close>

theorem C4_first_match_wins_witness:
  "initialization_duration (fst (scan sample_lib 100 twice_lines)) = Some 2.5 \<and>
   mop_s (fst (scan sample_lib 100 twice_lines)) = Some 12345.67 \<and>
   py_in SPLIT_MARKER (fst (twice_lines ! 2)) \<and> py_in MOP_S_MARKER (fst (twice_lines ! 3))"
proof -
  have s1: "(\<forall>(l', t') \<in> set []. \<not> py_in SPLIT_MARKER l') \<and>
      py_in SPLIT_MARKER (fst (twice_lines ! 0))"
    and s2: "snd (scan sample_lib 100 []) = None"
    and s3: "twice_lines = [] @ (fst (twice_lines ! 0), 102.5) # drop 1 twice_lines"
    by (simp_all add: sample_eval)
  have m1: "(\<forall>(l', t') \<in> set (take 1 twice_lines). \<not> py_in MOP_S_MARKER l') \<and>
      py_in MOP_S_MARKER (fst (twice_lines ! 1))"
    and m2: "parse_mop_s sample_lib (fst (twice_lines ! 1)) = Inr 12345.67"
    and m3: "twice_lines = take 1 twice_lines @ (fst (twice_lines ! 1), 110) # drop 2 twice_lines"
    by (simp_all add: sample_eval)
  have later: "py_in SPLIT_MARKER (fst (twice_lines ! 2))"
    "py_in MOP_S_MARKER (fst (twice_lines ! 3))"
    by (simp_all add: sample_eval)
  have "initialization_duration (fst (scan sample_lib 100 twice_lines)) = Some 2.5"
    using C4_first_match_wins [of "[]" "fst (twice_lines ! 0)" sample_lib 100 "102.5"
        "drop 1 twice_lines"] s1 s2 s3
    by simp
  moreover have "mop_s (fst (scan sample_lib 100 twice_lines)) = Some 12345.67"
    using C4_first_match_wins [of "take 1 twice_lines" "fst (twice_lines ! 1)" sample_lib 100
        110 "drop 2 twice_lines"] m1 m2 m3
    by simp
  ultimately show ?thesis using later by simp
qed

section \<open>The claims, profiling mode\<close>

subsection \<open>Library functions and the profiler\<close>

text \<open>
  \<open>str_nat\<close> writes the decimal numeral of its argument: reading it back gives the number.
\<close>

lemma digit_value_digit_char: "d < 10 \<Longrightarrow> digit_value (digit_char d) = d"
proof -
  assume "d < 10"
  then have "d \<in> {0, 1, 2, 3, 4, 5, 6, 7, 8, 9}" by auto
  then show ?thesis by (auto simp: digit_value_def digit_char_def)
qed

lemma nat_of_digits_snoc: "nat_of_digits (s @ [c]) = 10 * nat_of_digits s + digit_value c"
  by (simp add: nat_of_digits_def)

lemma nat_of_digits_str_nat: "nat_of_digits (str_nat n) = n"
proof (induction n rule: str_nat.induct)
  case (1 n)
  show ?case
  proof (cases "n < 10")
    case True
    then show ?thesis
      by (subst str_nat.simps) (simp add: nat_of_digits_def digit_value_digit_char)
  next
    case False
    with 1 have "nat_of_digits (str_nat (n div 10)) = n div 10" by simp
    with False show ?thesis
      by (subst str_nat.simps) (simp add: nat_of_digits_snoc digit_value_digit_char)
  qed
qed

text \<open>
  \<open>basename\<close> is the part of the path after its last slash: it contains no slash, and
  what precedes it in the path is empty or ends with one.
\<close>

lemma basename_no_slash: "CHR ''/'' \<notin> set (basename p)"
proof
  assume "CHR ''/'' \<in> set (basename p)"
  then have "CHR ''/'' \<in> set (takeWhile (\<lambda>c. c \<noteq> CHR ''/'') (rev p))"
    by (simp add: basename_def)
  then show False by (auto dest: set_takeWhileD)
qed

lemma basename_suffix:
  "\<exists>d. p = d @ basename p \<and> (d = [] \<or> last d = CHR ''/'')"
proof -
  let ?P = "\<lambda>c. c \<noteq> CHR ''/''"
  let ?d = "rev (dropWhile ?P (rev p))"
  have "p = rev (takeWhile ?P (rev p) @ dropWhile ?P (rev p))"
    by (simp only: takeWhile_dropWhile_id rev_rev_ident)
  then have p: "p = ?d @ basename p"
    by (simp only: rev_append basename_def)
  have "?d = [] \<or> last ?d = CHR ''/''"
  proof (cases "dropWhile ?P (rev p)")
    case Nil
    then show ?thesis by simp
  next
    case (Cons x xs)
    then have "\<not> ?P x" using hd_dropWhile [of ?P "rev p"] by auto
    with Cons show ?thesis by simp
  qed
  with p show ?thesis by blast
qed

text \<open>
  Claim C5. The only command the profiler thread runs is the profiler executable with
  \<^verbatim>\<open>-m memory -a -d <seconds> -o <csv path>\<close>, where the seconds are the decimal numeral
  of the floor of the estimated run duration; it runs it, after the sleep, in every run
  in which the kernel module loads, the output directory can be made and the estimated
  initialization duration is not negative (\<^verbatim>\<open>time.sleep\<close> raises otherwise).
\<close>

theorem C5_profiler_command:
  "(\<forall>argv. Run argv \<in> set (profiler_trace (do_profile py w c init_d run_d)) \<longrightarrow>
      argv = [UPROF_PCM_EXE, ''-m'', ''memory'', ''-a'', ''-d'', str_int \<lfloor>run_d\<rfloor>,
              ''-o'', csv_path c]) \<and>
   (modprobe w = Exit_status 0 \<and> out_dir w \<noteq> Blocked \<and> 0 \<le> init_d \<longrightarrow>
      profiler_trace (do_profile py w c init_d run_d) =
        [Sleep init_d,
         Run [UPROF_PCM_EXE, ''-m'', ''memory'', ''-a'', ''-d'', str_int \<lfloor>run_d\<rfloor>,
              ''-o'', csv_path c]]) \<and>
   (0 \<le> run_d \<longrightarrow> int (nat_of_digits (str_int \<lfloor>run_d\<rfloor>)) = \<lfloor>run_d\<rfloor>)"
proof (intro conjI allI impI)
  fix argv
  assume "Run argv \<in> set (profiler_trace (do_profile py w c init_d run_d))"
  then show "argv = [UPROF_PCM_EXE, ''-m'', ''memory'', ''-a'', ''-d'', str_int \<lfloor>run_d\<rfloor>,
              ''-o'', csv_path c]"
    by (auto simp: do_profile_def run_profiler_on_def csv_path_def Let_def
        split: run_outcome.splits if_splits)
next
  assume "modprobe w = Exit_status 0 \<and> out_dir w \<noteq> Blocked \<and> 0 \<le> init_d"
  then show "profiler_trace (do_profile py w c init_d run_d) =
        [Sleep init_d,
         Run [UPROF_PCM_EXE, ''-m'', ''memory'', ''-a'', ''-d'', str_int \<lfloor>run_d\<rfloor>,
              ''-o'', csv_path c]]"
    by (simp add: do_profile_def run_profiler_on_def csv_path_def Let_def)
next
  assume "0 \<le> run_d"
  then have "0 \<le> \<lfloor>run_d\<rfloor>" by simp
  then show "int (nat_of_digits (str_int \<lfloor>run_d\<rfloor>)) = \<lfloor>run_d\<rfloor>"
    by (simp add: str_int_def nat_of_digits_str_nat)
qed

text \<open>
  Estimates 2.0 and 9.7 for \<^verbatim>\<open>/bin/foo\<close>: the duration argument is 9.
\<close>

theorem C5_profiler_command_witness:
  "profiler_trace (do_profile sample_lib host ''/bin/foo'' 2 9.7) =
     [Sleep 2, Run [''/opt/AMDuProf_4.2-850/bin/AMDuProfPcm'', ''-m'', ''memory'', ''-a'',
                    ''-d'', ''9'', ''-o'', ''out/foo.csv'']]"
proof -
  have h: "modprobe host = Exit_status 0 \<and> out_dir host \<noteq> Blocked \<and> (0::real) \<le> 2"
    by (simp add: host_def)
  have v: "str_int \<lfloor>9.7::real\<rfloor> = ''9''" "csv_path ''/bin/foo'' = ''out/foo.csv''"
    by (simp_all add: str_int_def str_nat.simps digit_char_def csv_path_def basename_def)
  from C5_profiler_command [of sample_lib host "''/bin/foo''" 2 "9.7"]
  have "modprobe host = Exit_status 0 \<and> out_dir host \<noteq> Blocked \<and> (0::real) \<le> 2 \<longrightarrow>
      profiler_trace (do_profile sample_lib host ''/bin/foo'' 2 9.7) =
        [Sleep 2,
         Run [UPROF_PCM_EXE, ''-m'', ''memory'', ''-a'', ''-d'', str_int \<lfloor>9.7::real\<rfloor>,
              ''-o'', csv_path ''/bin/foo'']]"
    by (rule conjunct1 [OF conjunct2])
  from this h have "profiler_trace (do_profile sample_lib host ''/bin/foo'' 2 9.7) =
        [Sleep 2,
         Run [UPROF_PCM_EXE, ''-m'', ''memory'', ''-a'', ''-d'', str_int \<lfloor>9.7::real\<rfloor>,
              ''-o'', csv_path ''/bin/foo'']]"
    by (rule mp)
  then show ?thesis
    by (simp only: v UPROF_PCM_EXE_def)
qed

subsection \<open>The kernel module, the artifact path and the report\<close>

text \<open>
  Claim C6. When \<^verbatim>\<open>sudo modprobe msr\<close> does not end with status 0, the invocation ends
  with a non-zero exit code, and the only process it has started is that command: no
  benchmark, no profiler.
\<close>

theorem C6_modprobe_failure:
  assumes "modprobe w \<noteq> Exit_status 0"
  shows "exit_code (outcome (do_profile py w c init_d run_d)) \<noteq> 0 \<and>
     spawns (main_trace (do_profile py w c init_d run_d)) = [Run modprobe_command] \<and>
     popens (main_trace (do_profile py w c init_d run_d)) = [] \<and>
     profiler_trace (do_profile py w c init_d run_d) = []"
  using assms
  by (cases "modprobe w") (simp_all add: do_profile_def spawns_def popens_def)

text \<open>
  The module load ends with status 1: exit code 1.
\<close>

theorem C6_modprobe_failure_witness:
  "exit_code (outcome (do_profile sample_lib (host\<lparr>modprobe := Exit_status 1\<rparr>)
      ''/bin/foo'' 2 9.7)) = 1 \<and>
   spawns (main_trace (do_profile sample_lib (host\<lparr>modprobe := Exit_status 1\<rparr>)
      ''/bin/foo'' 2 9.7)) = [Run [''sudo'', ''modprobe'', ''msr'']] \<and>
   profiler_trace (do_profile sample_lib (host\<lparr>modprobe := Exit_status 1\<rparr>)
      ''/bin/foo'' 2 9.7) = []"
proof -
  have h: "modprobe (host\<lparr>modprobe := Exit_status 1\<rparr>) \<noteq> Exit_status 0" by simp
  have e: "exit_code (outcome (do_profile sample_lib (host\<lparr>modprobe := Exit_status 1\<rparr>)
      ''/bin/foo'' 2 9.7)) = 1"
    by (simp add: do_profile_def)
  from C6_modprobe_failure [OF h, of sample_lib "''/bin/foo''" 2 "9.7"] e show ?thesis
    by (simp add: modprobe_command_def)
qed

text \<open>
  Claim C9. When the kernel module loads and \<^verbatim>\<open>out/\<close> exists as a directory or can be
  created, the directory is made before the benchmark is started, which happens once;
  the completion line and the profiler's \<^verbatim>\<open>-o\<close> argument name
  \<^verbatim>\<open>out/<base name>.csv\<close>, the base name being what follows the last slash of the
  command; and the run returns normally.
\<close>

theorem C9_artifact_path:
  assumes "modprobe w = Exit_status 0" and "out_dir w \<noteq> Blocked"
  shows "(\<exists>pre p post. main_trace (do_profile py w c init_d run_d) =
            pre @ Makedirs ''out/'' # Popen p # post \<and>
          popens pre = [] \<and> shell_command p = c \<and> popens post = []) \<and>
     last (printed (main_trace (do_profile py w c init_d run_d))) =
       ''Profiling complete; output: '' @ ''out/'' @ basename c @ ''.csv'' @ [CHR 0x0A] \<and>
     (\<forall>argv. Run argv \<in> set (profiler_trace (do_profile py w c init_d run_d)) \<longrightarrow>
        last argv = ''out/'' @ basename c @ ''.csv'') \<and>
     outcome (do_profile py w c init_d run_d) = Returned \<and>
     CHR ''/'' \<notin> set (basename c) \<and>
     (\<exists>d. c = d @ basename c \<and> (d = [] \<or> last d = CHR ''/''))"
proof -
  let ?r = "do_profile py w c init_d run_d"
  let ?p = "\<lparr>shell_command = c, child_env = make_env (os_environ w), stdout_pipe = False\<rparr>"
  have tr: "main_trace ?r = [Run modprobe_command] @ Makedirs ''out/'' # Popen ?p #
      [Thread_start, Process_wait, Thread_join,
       Print (replicate 40 (CHR ''-'') @ [CHR 0x0A]),
       Print (''Profiling complete; output: '' @ ''out/'' @ basename c @ ''.csv'' @ [CHR 0x0A])]"
    using assms by (simp add: do_profile_def Let_def split: prod.splits)
  have "popens [Run modprobe_command] = []"
    "popens [Thread_start, Process_wait, Thread_join,
       Print (replicate 40 (CHR ''-'') @ [CHR 0x0A]),
       Print (''Profiling complete; output: '' @ ''out/'' @ basename c @ ''.csv'' @ [CHR 0x0A])] = []"
    "shell_command ?p = c"
    by (simp_all add: popens_def)
  with tr have order: "\<exists>pre p post. main_trace ?r = pre @ Makedirs ''out/'' # Popen p # post \<and>
          popens pre = [] \<and> shell_command p = c \<and> popens post = []"
    by blast
  have line: "last (printed (main_trace ?r)) =
       ''Profiling complete; output: '' @ ''out/'' @ basename c @ ''.csv'' @ [CHR 0x0A]"
    by (simp add: tr printed_def)
  have arg: "\<forall>argv. Run argv \<in> set (profiler_trace ?r) \<longrightarrow>
        last argv = ''out/'' @ basename c @ ''.csv''"
    using assms
    by (auto simp: do_profile_def run_profiler_on_def Let_def split: if_splits)
  have ret: "outcome ?r = Returned"
    using assms by (simp add: do_profile_def Let_def split: prod.splits)
  from order line arg ret basename_no_slash [of c] basename_suffix [of c] show ?thesis
    by blast
qed

text \<open>
  The command \<^verbatim>\<open>/bin/foo\<close> with \<^verbatim>\<open>out/\<close> already there: \<^verbatim>\<open>out/foo.csv\<close>, no error.
\<close>

theorem C9_artifact_path_witness:
  "last (printed (main_trace (do_profile sample_lib (host\<lparr>out_dir := Directory\<rparr>)
       ''/bin/foo'' 2 9.7))) = ''Profiling complete; output: out/foo.csv'' @ [CHR 0x0A] \<and>
   outcome (do_profile sample_lib (host\<lparr>out_dir := Directory\<rparr>) ''/bin/foo'' 2 9.7) = Returned"
proof -
  have h: "modprobe (host\<lparr>out_dir := Directory\<rparr>) = Exit_status 0"
    "out_dir (host\<lparr>out_dir := Directory\<rparr>) \<noteq> Blocked"
    by (simp_all add: host_def)
  have b: "basename ''/bin/foo'' = ''foo''" by (simp add: basename_def)
  from C9_artifact_path [OF h, of sample_lib "''/bin/foo''" 2 "9.7"]
  have "last (printed (main_trace (do_profile sample_lib (host\<lparr>out_dir := Directory\<rparr>)
       ''/bin/foo'' 2 9.7))) =
       ''Profiling complete; output: '' @ ''out/'' @ basename ''/bin/foo'' @ ''.csv'' @ [CHR 0x0A]"
    and "outcome (do_profile sample_lib (host\<lparr>out_dir := Directory\<rparr>) ''/bin/foo'' 2 9.7)
      = Returned"
    by blast+
  then show ?thesis by (simp add: b)
qed

text \<open>
  A string starts with each of its prefixes.
\<close>

lemma starts_with_append: "starts_with (p @ x) p"
  by (induction p) simp_all

text \<open>
  Claim C10. A profiling run does not depend on what the benchmark writes or on the
  clock: it starts the benchmark without a pipe on its standard output and records no
  durations and no throughput. When the kernel module loads and the output directory
  can be made, what it prints is the separator and then the completion line that names
  the CSV path, both after it has waited for the benchmark and joined the profiler
  thread. Otherwise it prints at most the error message of the module load.
\<close>

theorem C10_profile_report:
  "do_profile py (w\<lparr>child_output := ls, start_clock := a, end_clock := b\<rparr>) c init_d run_d =
     do_profile py w c init_d run_d \<and>
   (\<forall>p \<in> set (popens (main_trace (do_profile py w c init_d run_d))). \<not> stdout_pipe p) \<and>
   (modprobe w = Exit_status 0 \<and> out_dir w \<noteq> Blocked \<longrightarrow>
      (\<exists>pre. main_trace (do_profile py w c init_d run_d) =
           pre @ [Print (replicate 40 (CHR ''-'') @ [CHR 0x0A]),
                  Print (''Profiling complete; output: '' @ csv_path c @ [CHR 0x0A])] \<and>
         printed pre = [] \<and> Process_wait \<in> set pre \<and> Thread_join \<in> set pre)) \<and>
   (modprobe w \<noteq> Exit_status 0 \<or> out_dir w = Blocked \<longrightarrow>
      length (printed (main_trace (do_profile py w c init_d run_d))) \<le> 1 \<and>
      (\<forall>s \<in> set (printed (main_trace (do_profile py w c init_d run_d))).
         starts_with s ''Error inserting msr kernel module: ''))"
proof (intro conjI impI)
  show "do_profile py (w\<lparr>child_output := ls, start_clock := a, end_clock := b\<rparr>) c init_d run_d =
     do_profile py w c init_d run_d"
    by (cases "modprobe w") (simp_all add: do_profile_def Let_def)
next
  show "\<forall>p \<in> set (popens (main_trace (do_profile py w c init_d run_d))). \<not> stdout_pipe p"
    by (simp add: do_profile_def popens_def Let_def split: run_outcome.splits prod.splits)
next
  let ?pre = "[Run modprobe_command, Makedirs ''out/'',
      Popen \<lparr>shell_command = c, child_env = make_env (os_environ w), stdout_pipe = False\<rparr>,
      Thread_start, Process_wait, Thread_join]"
  assume "modprobe w = Exit_status 0 \<and> out_dir w \<noteq> Blocked"
  then have "main_trace (do_profile py w c init_d run_d) =
      ?pre @ [Print (replicate 40 (CHR ''-'') @ [CHR 0x0A]),
              Print (''Profiling complete; output: '' @ csv_path c @ [CHR 0x0A])]"
    by (simp add: do_profile_def csv_path_def Let_def split: prod.splits)
  moreover have "printed ?pre = [] \<and> Process_wait \<in> set ?pre \<and> Thread_join \<in> set ?pre"
    by (simp add: printed_def)
  ultimately show "\<exists>pre. main_trace (do_profile py w c init_d run_d) =
           pre @ [Print (replicate 40 (CHR ''-'') @ [CHR 0x0A]),
                  Print (''Profiling complete; output: '' @ csv_path c @ [CHR 0x0A])] \<and>
         printed pre = [] \<and> Process_wait \<in> set pre \<and> Thread_join \<in> set pre"
    by blast
next
  assume fail: "modprobe w \<noteq> Exit_status 0 \<or> out_dir w = Blocked"
  show "length (printed (main_trace (do_profile py w c init_d run_d))) \<le> 1"
    using fail
    by (auto simp: do_profile_def printed_def Let_def split: run_outcome.splits)
next
  assume fail: "modprobe w \<noteq> Exit_status 0 \<or> out_dir w = Blocked"
  show "\<forall>s \<in> set (printed (main_trace (do_profile py w c init_d run_d))).
         starts_with s ''Error inserting msr kernel module: ''"
    using fail starts_with_append [of "''Error inserting msr kernel module: ''"]
    by (auto simp: do_profile_def printed_def Let_def split: run_outcome.splits)
qed

text \<open>
  A profiling run of a benchmark that prints both markers, and one where the module
  load fails.
\<close>

theorem C10_profile_report_witness:
  "printed (main_trace (do_profile sample_lib (host\<lparr>child_output := npb_lines\<rparr>)
      ''/bin/foo'' 2 9.7)) =
     [replicate 40 (CHR ''-'') @ [CHR 0x0A],
      ''Profiling complete; output: out/foo.csv'' @ [CHR 0x0A]] \<and>
   do_profile sample_lib (host\<lparr>child_output := npb_lines, start_clock := 100,
      end_clock := 112\<rparr>) ''/bin/foo'' 2 9.7 =
     do_profile sample_lib host ''/bin/foo'' 2 9.7 \<and>
   length (printed (main_trace (do_profile sample_lib (host\<lparr>modprobe := Exit_status 1\<rparr>)
      ''/bin/foo'' 2 9.7))) \<le> 1"
proof -
  let ?w = "host\<lparr>child_output := npb_lines\<rparr>"
  let ?f = "host\<lparr>modprobe := Exit_status 1\<rparr>"
  have h: "modprobe ?w = Exit_status 0 \<and> out_dir ?w \<noteq> Blocked"
    by (simp add: host_def)
  have f: "modprobe ?f \<noteq> Exit_status 0 \<or> out_dir ?f = Blocked"
    by simp
  have b: "csv_path ''/bin/foo'' = ''out/foo.csv''"
    by (simp add: csv_path_def basename_def)
  from C10_profile_report [where py = sample_lib and w = ?w and c = "''/bin/foo''"
      and init_d = 2 and run_d = "9.7"] h
  obtain pre where "main_trace (do_profile sample_lib ?w ''/bin/foo'' 2 9.7) =
      pre @ [Print (replicate 40 (CHR ''-'') @ [CHR 0x0A]),
             Print (''Profiling complete; output: '' @ csv_path ''/bin/foo'' @ [CHR 0x0A])]"
    and "printed pre = []"
    by blast
  then have one: "printed (main_trace (do_profile sample_lib ?w ''/bin/foo'' 2 9.7)) =
     [replicate 40 (CHR ''-'') @ [CHR 0x0A],
      ''Profiling complete; output: out/foo.csv'' @ [CHR 0x0A]]"
    by (simp add: printed_def b)
  from C10_profile_report [where py = sample_lib and w = host and ls = npb_lines and a = 100
      and b = 112 and c = "''/bin/foo''" and init_d = 2 and run_d = "9.7"]
  have two: "do_profile sample_lib (host\<lparr>child_output := npb_lines, start_clock := 100,
      end_clock := 112\<rparr>) ''/bin/foo'' 2 9.7 = do_profile sample_lib host ''/bin/foo'' 2 9.7"
    by blast
  from C10_profile_report [where py = sample_lib and w = ?f and c = "''/bin/foo''"
      and init_d = 2 and run_d = "9.7"] f
  have three: "length (printed (main_trace (do_profile sample_lib ?f ''/bin/foo'' 2 9.7))) \<le> 1"
    by blast
  from one two three show ?thesis by blast
qed

end
